theory Spec2Isabelle
  imports Complex_Main
begin

section \<open>Python values shared by the modelled modules\<close>

text \<open>
  Exceptions of the Python source are values: every function that can raise returns
  \<open>error + 'a\<close>, with \<open>Inl\<close> carrying the exception and its message. The specification's
  \<open>ConstraintViolation\<close>, \<open>ShapeMismatchError\<close>, \<open>StructuralError\<close> and
  \<open>ConfigValidationError\<close> are all raised as Python \<open>ValueError\<close> (or \<open>TypeError\<close>,
  \<open>Exception\<close>) in the source; the message tells them apart.
\<close>

datatype error =
    ValueError string
  | TypeError string
  | AttributeError string
  | RuntimeError string
  | KeyError string
  | IndexError string
  | ZeroDivisionError
  | Exception string

text \<open>
  A \<open>kernel_size\<close>, \<open>stride\<close> or \<open>padding\<close> attribute of a torch pooling module holds what
  the constructor was given: an int, a pair of ints, or \<open>None\<close> (the default stride of
  \<open>LPPool2d\<close>).
\<close>

datatype size2 = NoneSize | IntSize int | PairSize int int

section \<open>Tensors and torch modules\<close>

text \<open>
  A tensor is contiguous row-major storage with a shape, as torch keeps it; a Python
  float used in tensor arithmetic is the tensor of shape \<open>[]\<close>. Floating-point values are
  idealised as reals where the source computes with them; the functions that only move
  values (\<open>reshape\<close>, \<open>clone\<close>) are polymorphic in the element type.
\<close>

datatype 'a tensor = Tensor (shape: "nat list") (data: "'a list")

text \<open>
  The attributes of \<open>torch.nn.Conv2d\<close>, \<open>torch.nn.Linear\<close>, \<open>torch.nn.BatchNorm2d\<close> and of
  the spiking layer that the source reads. \<open>Conv2d\<close> stores kernel size, stride, padding
  and dilation as pairs. \<open>state_initialised\<close> is what \<open>is_state_initialised()\<close> returns.
\<close>

record 'a conv2d =
  in_channels :: int
  out_channels :: int
  kernel_size :: "int \<times> int"
  stride :: "int \<times> int"
  padding :: "int \<times> int"
  dilation :: "int \<times> int"
  weight :: "'a tensor"
  bias :: "'a tensor option"

record 'a linear =
  in_features :: int
  out_features :: int
  lin_weight :: "'a tensor"
  lin_bias :: "'a tensor option"

record 'a batchnorm2d =
  affine :: bool
  running_mean :: "'a tensor option"
  running_var :: "'a tensor option"
  bn_weight :: "'a tensor option"
  bn_bias :: "'a tensor option"

record 'a spiking =
  spike_threshold :: 'a
  min_v_mem :: "'a option"
  v_mem :: "'a tensor"
  state_initialised :: bool

text \<open>
  The layer classes the source tests with \<open>isinstance\<close>. \<open>AvgPool2d\<close> carries
  \<open>kernel_size\<close>, \<open>stride\<close> and \<open>padding\<close>; \<open>SumPool2d\<close> (\<open>sl.SumPool2d(kernel)\<close>) carries
  \<open>kernel_size\<close> and \<open>stride\<close>. \<open>SpikingLayer\<close> is the class \<open>utils.py\<close> tests for,
  \<open>IAFSqueeze\<close> the one \<open>dynapcnn_layer_new.py\<close> tests for.
\<close>

datatype 'a layer =
    Conv2d "'a conv2d"
  | Linear "'a linear"
  | BatchNorm2d "'a batchnorm2d"
  | SpikingLayer "'a spiking"
  | IAFSqueeze "'a spiking"
  | AvgPool2d size2 size2 size2
  | SumPool2d size2 size2
  | OtherLayer string

subsection \<open>Broadcasting arithmetic on tensors\<close>

text \<open>Shapes are aligned at their last dimension; a dimension of size 1 stretches.\<close>

fun broadcast_rev :: "nat list \<Rightarrow> nat list \<Rightarrow> nat list option" where
  "broadcast_rev [] ys = Some ys"
| "broadcast_rev xs [] = Some xs"
| "broadcast_rev (x # xs) (y # ys) =
     (if x = y \<or> y = 1 then map_option ((#) x) (broadcast_rev xs ys)
      else if x = 1 then map_option ((#) y) (broadcast_rev xs ys)
      else None)"

definition broadcast_shapes :: "nat list \<Rightarrow> nat list \<Rightarrow> nat list option" where
  "broadcast_shapes xs ys = map_option rev (broadcast_rev (rev xs) (rev ys))"

text \<open>All multi-indices of a shape, in row-major order.\<close>

fun indices :: "nat list \<Rightarrow> nat list list" where
  "indices [] = [[]]"
| "indices (n # ns) = concat (map (\<lambda>i. map ((#) i) (indices ns)) [0..<n])"

text \<open>
  Storage offset of a multi-index in an operand of the given shape (both reversed): the
  operand's missing leading dimensions and its dimensions of size 1 are stretched.
\<close>

fun offset_rev :: "nat list \<Rightarrow> nat list \<Rightarrow> nat" where
  "offset_rev [] ix = 0"
| "offset_rev (d # ds) [] = 0"
| "offset_rev (d # ds) (i # ix) = (if d = 1 then 0 else i) + d * offset_rev ds ix"

definition tensor_at :: "'a tensor \<Rightarrow> nat list \<Rightarrow> 'a" where
  "tensor_at t ix = data t ! offset_rev (rev (shape t)) (rev ix)"

definition binop ::
  "('a \<Rightarrow> 'a \<Rightarrow> 'a) \<Rightarrow> 'a tensor \<Rightarrow> 'a tensor \<Rightarrow> error + 'a tensor" where
  "binop f a b =
     (case broadcast_shapes (shape a) (shape b) of
        None \<Rightarrow> Inl (RuntimeError ''The size of tensor a must match the size of tensor b'')
      | Some s \<Rightarrow> Inr (Tensor s (map (\<lambda>ix. f (tensor_at a ix) (tensor_at b ix)) (indices s))))"

definition scalar :: "'a \<Rightarrow> 'a tensor" where
  "scalar x = Tensor [] [x]"

definition tensor_sqrt :: "real tensor \<Rightarrow> real tensor" where
  "tensor_sqrt t = Tensor (shape t) (map sqrt (data t))"

text \<open>\<open>t[:, None, None, None]\<close>: three dimensions of size 1 after the first.\<close>

definition unsqueeze3 :: "'a tensor \<Rightarrow> error + 'a tensor" where
  "unsqueeze3 t =
     (case shape t of
        [] \<Rightarrow> Inl (IndexError ''too many indices for tensor of dimension 0'')
      | d # ds \<Rightarrow> Inr (Tensor (d # 1 # 1 # 1 # ds) (data t)))"

text \<open>
  \<open>t.reshape(dims)\<close> on contiguous storage keeps the storage and changes the shape. One
  dimension may be \<open>-1\<close> and is then inferred.
\<close>

definition reshape :: "'a tensor \<Rightarrow> int list \<Rightarrow> error + 'a tensor" where
  "reshape t dims =
     (let n = length (data t); known = filter (\<lambda>d. d \<noteq> - 1) dims;
          p = prod_list (map nat known)
      in if \<exists>d \<in> set dims. d < - 1 then Inl (RuntimeError ''invalid shape dimension'')
         else if length known + 1 < length dims
           then Inl (RuntimeError ''only one dimension can be inferred'')
         else if length known < length dims
           then (if p \<noteq> 0 \<and> n mod p = 0
                 then Inr (Tensor (map (\<lambda>d. if d = - 1 then n div p else nat d) dims) (data t))
                 else Inl (RuntimeError ''shape is invalid for input size''))
         else if p = n then Inr (Tensor (map nat dims) (data t))
         else Inl (RuntimeError ''shape is invalid for input size''))"

section \<open>\<open>dynapcnn_layer_new.py\<close>: output shape of a convolution\<close>

text \<open>Python's \<open>a // b\<close> on ints: floor division, \<open>ZeroDivisionError\<close> when \<open>b = 0\<close>.\<close>

definition floordiv :: "int \<Rightarrow> int \<Rightarrow> error + int" where
  "floordiv a b = (if b = 0 then Inl ZeroDivisionError else Inr (a div b))"

text \<open>
  \<open>DynapcnnLayer.get_conv_output_shape(conv_layer, input_shape)\<close>, with \<open>input_shape\<close> the
  triple (channels, height, width). The height is computed before the width.
\<close>

definition get_conv_output_shape ::
  "'a conv2d \<Rightarrow> int \<times> int \<times> int \<Rightarrow> error + (int \<times> int \<times> int)" where
  "get_conv_output_shape conv_layer input_shape =
     (case input_shape of (in_c, in_h, in_w) \<Rightarrow>
      (case floordiv (in_h + 2 * fst (padding conv_layer)
                        - fst (dilation conv_layer) * (fst (kernel_size conv_layer) - 1) - 1)
                     (fst (stride conv_layer)) of
         Inl e \<Rightarrow> Inl e
       | Inr qh \<Rightarrow>
        (case floordiv (in_w + 2 * snd (padding conv_layer)
                          - snd (dilation conv_layer) * (snd (kernel_size conv_layer) - 1) - 1)
                       (snd (stride conv_layer)) of
           Inl e \<Rightarrow> Inl e
         | Inr qw \<Rightarrow> Inr (out_channels conv_layer, qh + 1, qw + 1))))"

section \<open>\<open>utils.py\<close>: pooling consolidation\<close>

text \<open>\<open>expand_to_pair(value)\<close>: an int becomes the pair of itself, anything else is returned.\<close>

fun expand_to_pair :: "size2 \<Rightarrow> size2" where
  "expand_to_pair (IntSize v) = PairSize v v"
| "expand_to_pair value = value"

text \<open>
  The head of the loop body of \<open>construct_next_pooling_layer\<close>: \<open>None\<close> when the layer is
  not a pooling layer (the loop breaks), the padding error for an \<open>AvgPool2d\<close> whose
  \<open>padding != 0\<close> (a tuple or \<open>None\<close> differs from \<open>0\<close> too), else the layer's
  \<open>kernel_size\<close> and \<open>stride\<close>. The \<open>SumPool2d\<close> branch of the source is empty.
\<close>

fun pooling_attrs :: "'a layer \<Rightarrow> (error + size2 \<times> size2) option" where
  "pooling_attrs (AvgPool2d k s p) =
     (if p \<noteq> IntSize 0
      then Some (Inl (ValueError ''Padding is not supported for the pooling layers''))
      else Some (Inr (k, s)))"
| "pooling_attrs (SumPool2d k s) = Some (Inr (k, s))"
| "pooling_attrs lyr = None"

text \<open>
  The rest of the loop body: the stride check, then the cumulative pooling and the
  rescale factor. Subscripting \<open>None\<close> raises \<open>TypeError\<close>.
\<close>

definition accumulate_pooling ::
  "size2 \<Rightarrow> size2 \<Rightarrow> int \<times> int \<Rightarrow> int \<Rightarrow> error + (int \<times> int) \<times> int" where
  "accumulate_pooling k s cumulative_pooling rescale_factor =
     (let pooling = expand_to_pair k; stride = expand_to_pair s
      in if pooling \<noteq> stride
         then Inl (ValueError ''Stride length should be the same as pooling kernel size'')
         else (case pooling of
                 PairSize p0 p1 \<Rightarrow>
                   Inr ((fst cumulative_pooling * p0, snd cumulative_pooling * p1),
                        rescale_factor * (p0 * p1))
               | _ \<Rightarrow> Inl (TypeError ''object is not subscriptable'')))"

text \<open>
  The loop \<open>for idx_next, lyr in enumerate(layers)\<close>. \<open>i\<close> is the index of the head of the
  list; \<open>idx_next\<close> is the value the loop variable holds before this iteration, which is
  what remains when the list is exhausted.
\<close>

fun pooling_loop ::
  "'a layer list \<Rightarrow> nat \<Rightarrow> nat \<Rightarrow> int \<times> int \<Rightarrow> int \<Rightarrow> error + nat \<times> (int \<times> int) \<times> int" where
  "pooling_loop [] i idx_next cumulative_pooling rescale_factor =
     Inr (idx_next, cumulative_pooling, rescale_factor)"
| "pooling_loop (lyr # rest) i idx_next cumulative_pooling rescale_factor =
     (case pooling_attrs lyr of
        None \<Rightarrow> Inr (i, cumulative_pooling, rescale_factor)
      | Some (Inl e) \<Rightarrow> Inl e
      | Some (Inr (k, s)) \<Rightarrow>
          (case accumulate_pooling k s cumulative_pooling rescale_factor of
             Inl e \<Rightarrow> Inl e
           | Inr (cp, rf) \<Rightarrow> pooling_loop rest (Suc i) i cp rf))"

text \<open>
  \<open>construct_next_pooling_layer(layers)\<close>. The first component is \<open>None\<close> or the kernel
  \<open>k\<close> of the returned \<open>sl.SumPool2d(k)\<close>.
\<close>

definition construct_next_pooling_layer ::
  "'a layer list \<Rightarrow> error + (int \<times> int) option \<times> nat \<times> int" where
  "construct_next_pooling_layer layers =
     (case pooling_loop layers 0 0 (1, 1) 1 of
        Inl e \<Rightarrow> Inl e
      | Inr (idx_next, cumulative_pooling, rescale_factor) \<Rightarrow>
          if cumulative_pooling = (1, 1) then Inr (None, idx_next, 1)
          else Inr (Some cumulative_pooling, idx_next, rescale_factor))"

subsection \<open>Vocabulary for the pooling claims\<close>

text \<open>
  A pooling layer is an \<open>AvgPool2d\<close> or a \<open>SumPool2d\<close>; only the first has a
  \<open>padding\<close>. \<open>kernel_pair\<close> is the layer's
  kernel after \<open>expand_to_pair\<close>; \<open>passes_checks\<close> says that the layer gets through one
  iteration of the loop: zero padding, kernel equal to stride, and a kernel that is a
  number or a pair. \<open>chain_kernel\<close> and \<open>chain_rescale\<close> are the elementwise product of
  the kernels of a chain and the product of their areas. \<open>chain_ends\<close> says that the
  chain is maximal: the list ends, or goes on with a layer that is no pooling layer.
\<close>

fun is_pooling :: "'a layer \<Rightarrow> bool" where
  "is_pooling (AvgPool2d k s p) = True"
| "is_pooling (SumPool2d k s) = True"
| "is_pooling lyr = False"

fun pool_kernel_size :: "'a layer \<Rightarrow> size2" where
  "pool_kernel_size (AvgPool2d k s p) = k"
| "pool_kernel_size (SumPool2d k s) = k"
| "pool_kernel_size lyr = NoneSize"

fun pool_stride :: "'a layer \<Rightarrow> size2" where
  "pool_stride (AvgPool2d k s p) = s"
| "pool_stride (SumPool2d k s) = s"
| "pool_stride lyr = NoneSize"

fun padding_nonzero :: "'a layer \<Rightarrow> bool" where
  "padding_nonzero (AvgPool2d k s p) = (p \<noteq> IntSize 0)"
| "padding_nonzero lyr = False"

definition kernel_pair :: "'a layer \<Rightarrow> int \<times> int" where
  "kernel_pair lyr = (case expand_to_pair (pool_kernel_size lyr) of PairSize a b \<Rightarrow> (a, b) | _ \<Rightarrow> (1, 1))"

definition kernel_eq_stride :: "'a layer \<Rightarrow> bool" where
  "kernel_eq_stride lyr = (expand_to_pair (pool_kernel_size lyr) = expand_to_pair (pool_stride lyr))"

definition chain_kernel :: "'a layer list \<Rightarrow> int \<times> int" where
  "chain_kernel chain =
     (prod_list (map (\<lambda>l. fst (kernel_pair l)) chain), prod_list (map (\<lambda>l. snd (kernel_pair l)) chain))"

definition chain_rescale :: "'a layer list \<Rightarrow> int" where
  "chain_rescale chain = prod_list (map (\<lambda>l. fst (kernel_pair l) * snd (kernel_pair l)) chain)"

fun chain_ends :: "'a layer list \<Rightarrow> bool" where
  "chain_ends [] = True"
| "chain_ends (lyr # rest) = (\<not> is_pooling lyr)"

definition passes_checks :: "'a layer \<Rightarrow> bool" where
  "passes_checks lyr = (is_pooling lyr \<and> \<not> padding_nonzero lyr \<and> kernel_eq_stride lyr
      \<and> pool_kernel_size lyr \<noteq> NoneSize)"

text \<open>
  The kernels as the specification names them: a pair (height, width); a size given as one
  number \<open>v\<close> denotes the pair \<open>(v, v)\<close>. A layer \<open>pools_with\<close> a kernel when it is a pooling
  layer whose kernel size and whose stride both denote that kernel and, for an
  \<open>AvgPool2d\<close>, whose padding is 0. \<open>kernels_product\<close> is the elementwise product of a list
  of kernels and \<open>areas_product\<close> the product of their areas.
\<close>

fun size_denotes :: "size2 \<Rightarrow> int \<times> int \<Rightarrow> bool" where
  "size_denotes (IntSize v) kern = (kern = (v, v))"
| "size_denotes (PairSize a b) kern = (kern = (a, b))"
| "size_denotes NoneSize kern = False"

fun pools_with :: "'a layer \<Rightarrow> int \<times> int \<Rightarrow> bool" where
  "pools_with (AvgPool2d k s p) kern =
     (size_denotes k kern \<and> size_denotes s kern \<and> p = IntSize 0)"
| "pools_with (SumPool2d k s) kern = (size_denotes k kern \<and> size_denotes s kern)"
| "pools_with lyr kern = False"

definition kernels_product :: "(int \<times> int) list \<Rightarrow> int \<times> int" where
  "kernels_product kernels = (prod_list (map fst kernels), prod_list (map snd kernels))"

definition areas_product :: "(int \<times> int) list \<Rightarrow> int" where
  "areas_product kernels = prod_list (map (\<lambda>(kh, kw). kh * kw) kernels)"

section \<open>\<open>dynapcnn_layer_new.py\<close>: linear layer to convolution\<close>

text \<open>
  \<open>DynapcnnLayer._convert_linear_to_conv(lin, layer_data)\<close>, with \<open>input_shape\<close> the value of
  \<open>layer_data['input_shape']\<close>. \<open>nn.Conv2d(in_channels, kernel_size, out_channels,
  padding=0, bias=...)\<close> gets stride 1 and dilation 1 by default and fails on a negative
  size; its freshly initialised weight and bias are overwritten by the reshaped weight and
  the clone of the linear bias.
\<close>

definition convert_linear_to_conv ::
  "'a linear \<Rightarrow> int \<times> int \<times> int \<Rightarrow> error + 'a conv2d \<times> (int \<times> int \<times> int)" where
  "convert_linear_to_conv lin input_shape =
     (case input_shape of (in_chan, in_h, in_w) \<Rightarrow>
        if in_features lin \<noteq> in_chan * in_h * in_w
        then Inl (ValueError ''Shapes don't match.'')
        else if in_chan < 0 \<or> out_features lin < 0 \<or> in_h < 0 \<or> in_w < 0
        then Inl (RuntimeError ''Trying to create tensor with negative dimension'')
        else (case reshape (lin_weight lin) [out_features lin, in_chan, in_h, in_w] of
                Inl e \<Rightarrow> Inl e
              | Inr w \<Rightarrow>
                  Inr (\<lparr>in_channels = in_chan, out_channels = out_features lin,
                        kernel_size = (in_h, in_w), stride = (1, 1), padding = (0, 0),
                        dilation = (1, 1), weight = w, bias = lin_bias lin\<rparr>,
                       input_shape)))"

text \<open>
  What every \<open>nn.Linear\<close> satisfies: its weight has shape (out_features, in_features).
\<close>

definition linear_wf :: "'a linear \<Rightarrow> bool" where
  "linear_wf lin =
     (0 \<le> in_features lin \<and> 0 \<le> out_features lin
      \<and> shape (lin_weight lin) = [nat (out_features lin), nat (in_features lin)]
      \<and> length (data (lin_weight lin)) = nat (out_features lin) * nat (in_features lin))"

text \<open>
  The example of the specification: \<open>Linear(in_features=12, out_features=4)\<close>, here with
  the 48 pairwise different weights 0, 1, ..., 47.
\<close>

definition linear_12_4 :: "nat linear" where
  "linear_12_4 = \<lparr>in_features = 12, out_features = 4,
     lin_weight = Tensor [4, 12] [0..<48], lin_bias = None\<rparr>"

section \<open>\<open>dynapcnn_network_graph.py\<close>: making the configuration\<close>

text \<open>
  What \<open>_make_config\<close> reads of \<open>self\<close>: the input shape and, per entry of
  \<open>self.dynapcnn_layers\<close> (a dict, in insertion order), whether its layer is a
  \<open>DVSLayer\<close>, its destinations and its core index.
\<close>

record dcnnl_entry =
  is_dvs_layer :: bool
  destinations :: "int list"
  core_idx :: "int option"

record dynapcnn_network =
  net_input_shape :: "(int \<times> int \<times> int) option"
  dynapcnn_layers :: "(int \<times> dcnnl_entry) list"

text \<open>
  The arguments \<open>chip_layers_ordering\<close> (the string \<open>auto\<close> or a sequence) and
  \<open>monitor_layers\<close> (\<open>None\<close>, a string, or a list of strings and ints), and the entries
  of \<open>monitor_chip_layers\<close> (a core index or the string \<open>dvs\<close>).
\<close>

datatype layers_ordering = Auto | Cores "int list"

datatype monitor_entry = EntryStr string | EntryInt int

datatype monitor_spec = MonitorNone | MonitorStr string | MonitorList "monitor_entry list"

datatype monitored = MonitorCore "int option" | MonitorDvs

text \<open>
  The configuration builder \<open>ChipFactory(device).get_config_builder()\<close> and the samna
  configuration object are not part of the sources; their operations are parameters.
  The operations that mutate their argument return the new value: \<open>get_valid_mapping\<close>
  the network with its cores assigned, \<open>monitor_layers\<close> the configuration with the monitors
  enabled, \<open>set_dvs_merge\<close> the configuration after \<open>config.dvs_layer.merge = True\<close>.
\<close>

record 'cfg config_builder =
  get_valid_mapping :: "dynapcnn_network \<Rightarrow> error + dynapcnn_network"
  build_config :: "dynapcnn_network \<Rightarrow> error + 'cfg"
  set_dvs_merge :: "'cfg \<Rightarrow> 'cfg"
  monitor_layers :: "'cfg \<Rightarrow> monitored list \<Rightarrow> error + 'cfg"
  validate_configuration :: "'cfg \<Rightarrow> error + bool"

text \<open>Python's \<open>p in s\<close> on strings: \<open>p\<close> occurs in \<open>s\<close> as a contiguous substring.\<close>

fun is_substring :: "string \<Rightarrow> string \<Rightarrow> bool" where
  "is_substring p [] = (p = [])"
| "is_substring p (c # cs) = (take (length p) (c # cs) = p \<or> is_substring p cs)"

text \<open>\<open>if monitor_layers: if "dvs" in monitor_layers\<close>.\<close>

fun wants_dvs :: "monitor_spec \<Rightarrow> bool" where
  "wants_dvs MonitorNone = False"
| "wants_dvs (MonitorStr s) = (s \<noteq> [] \<and> is_substring ''dvs'' s)"
| "wants_dvs (MonitorList l) = (EntryStr ''dvs'' \<in> set l)"

text \<open>The loop that monitors the first layer without destinations, then breaks.\<close>

fun first_sink :: "(int \<times> dcnnl_entry) list \<Rightarrow> monitored list" where
  "first_sink [] = []"
| "first_sink ((k, d) # rest) =
     (if length (destinations d) = 0 then [MonitorCore (core_idx d)] else first_sink rest)"

definition monitor_chip_layers :: "dynapcnn_network \<Rightarrow> monitor_spec \<Rightarrow> monitored list" where
  "monitor_chip_layers net monitor =
     (if monitor = MonitorNone then first_sink (dynapcnn_layers net)
      else if monitor = MonitorStr ''all''
        then map (\<lambda>(k, d). MonitorCore (core_idx d))
               (filter (\<lambda>(k, d). \<not> is_dvs_layer d) (dynapcnn_layers net))
      else [])
     @ (if wants_dvs monitor then [MonitorDvs] else [])"

text \<open>
  \<open>DynapcnnNetworkGraph._make_config\<close>. \<open>chip_factory\<close> is
  \<open>ChipFactory(device).get_config_builder()\<close>; \<open>self.dynapcnn_layers[0]\<close> raises
  \<open>KeyError\<close> when there is no key 0.
\<close>

definition underscore_make_config ::
  "(string \<Rightarrow> error + 'cfg config_builder) \<Rightarrow> dynapcnn_network \<Rightarrow> layers_ordering \<Rightarrow> string \<Rightarrow>
   monitor_spec \<Rightarrow> ('cfg \<Rightarrow> error + 'cfg) option \<Rightarrow> error + 'cfg \<times> bool" where
  "underscore_make_config chip_factory self chip_layers_ordering device monitor config_modifier =
     (case chip_factory device of
        Inl e \<Rightarrow> Inl e
      | Inr config_builder \<Rightarrow>
     (case map_of (dynapcnn_layers self) 0 of
        None \<Rightarrow> Inl (KeyError ''0'')
      | Some first \<Rightarrow>
     (case (if chip_layers_ordering = Auto then get_valid_mapping config_builder self
            else Inr self) of
        Inl e \<Rightarrow> Inl e
      | Inr self \<Rightarrow>
     (case build_config config_builder self of
        Inl e \<Rightarrow> Inl e
      | Inr config \<Rightarrow>
     (let config = (case net_input_shape self of
                      Some (c, h, w) \<Rightarrow> if c = 1 then set_dvs_merge config_builder config
                                       else config
                    | None \<Rightarrow> config)
      in case monitor_layers config_builder config (monitor_chip_layers self monitor) of
        Inl e \<Rightarrow> Inl e
      | Inr config \<Rightarrow>
     (case (case config_modifier of None \<Rightarrow> Inr config | Some f \<Rightarrow> f config) of
        Inl e \<Rightarrow> Inl e
      | Inr config \<Rightarrow>
     (case validate_configuration config_builder config of
        Inl e \<Rightarrow> Inl e
      | Inr is_compatible \<Rightarrow> Inr (config, is_compatible))))))))"

text \<open>\<open>DynapcnnNetworkGraph.make_config\<close>.\<close>

definition make_config ::
  "(string \<Rightarrow> error + 'cfg config_builder) \<Rightarrow> dynapcnn_network \<Rightarrow> layers_ordering \<Rightarrow> string \<Rightarrow>
   monitor_spec \<Rightarrow> ('cfg \<Rightarrow> error + 'cfg) option \<Rightarrow> error + 'cfg" where
  "make_config chip_factory self chip_layers_ordering device monitor config_modifier =
     (case underscore_make_config chip_factory self chip_layers_ordering device monitor
             config_modifier of
        Inl e \<Rightarrow> Inl e
      | Inr (config, is_compatible) \<Rightarrow>
          if is_compatible then Inr config
          else Inl (ValueError (''Generated config is not valid for '' @ device)))"

text \<open>
  A builder for the examples: the configuration is the list of monitored cores, and a
  configuration is valid when it monitors at most \<open>limit\<close> cores.
\<close>

definition example_builder :: "nat \<Rightarrow> string \<Rightarrow> error + (monitored list) config_builder" where
  "example_builder limit device =
     Inr \<lparr>get_valid_mapping = Inr, build_config = (\<lambda>net. Inr []), set_dvs_merge = id,
          monitor_layers = (\<lambda>config ms. Inr (config @ ms)),
          validate_configuration = (\<lambda>config. Inr (length config \<le> limit))\<rparr>"

definition example_network :: dynapcnn_network where
  "example_network =
     \<lparr>net_input_shape = Some (2, 34, 34),
      dynapcnn_layers =
        [(0, \<lparr>is_dvs_layer = False, destinations = [1], core_idx = Some 0\<rparr>),
         (1, \<lparr>is_dvs_layer = False, destinations = [], core_idx = Some 1\<rparr>)]\<rparr>"

section \<open>\<open>utils.py\<close>: folding a batch normalisation into a convolution\<close>

text \<open>
  Modules are objects: a heap is the list of the objects allocated so far, and a reference
  is an index into it. An object holds the data of its parameters, so that
  \<open>m.weight.data = t\<close> updates the object at the reference of \<open>m\<close>, and \<open>deepcopy(m)\<close>
  allocates a new object with the same contents.
\<close>

type_synonym 'a heap = "'a layer list"

definition heap_get :: "'a heap \<Rightarrow> nat \<Rightarrow> 'a layer option" where
  "heap_get h r = (if r < length h then Some (h ! r) else None)"

definition alloc :: "'a heap \<Rightarrow> 'a layer \<Rightarrow> 'a heap \<times> nat" where
  "alloc h obj = (h @ [obj], length h)"

text \<open>
  The attributes \<open>weight\<close> and \<open>bias\<close> of a module: the outer \<open>None\<close> says that the
  class has no such attribute, \<open>Some None\<close> that the attribute is \<open>None\<close>.
\<close>

fun get_weight :: "'a layer \<Rightarrow> 'a tensor option option" where
  "get_weight (Conv2d c) = Some (Some (weight c))"
| "get_weight (Linear l) = Some (Some (lin_weight l))"
| "get_weight (BatchNorm2d b) = Some (bn_weight b)"
| "get_weight lyr = None"

fun get_bias :: "'a layer \<Rightarrow> 'a tensor option option" where
  "get_bias (Conv2d c) = Some (bias c)"
| "get_bias (Linear l) = Some (lin_bias l)"
| "get_bias (BatchNorm2d b) = Some (bn_bias b)"
| "get_bias lyr = None"

fun set_weight_data :: "'a layer \<Rightarrow> 'a tensor \<Rightarrow> 'a layer" where
  "set_weight_data (Conv2d c) t = Conv2d (c\<lparr>weight := t\<rparr>)"
| "set_weight_data (Linear l) t = Linear (l\<lparr>lin_weight := t\<rparr>)"
| "set_weight_data (BatchNorm2d b) t = BatchNorm2d (b\<lparr>bn_weight := Some t\<rparr>)"
| "set_weight_data lyr t = lyr"

fun set_bias_data :: "'a layer \<Rightarrow> 'a tensor \<Rightarrow> 'a layer" where
  "set_bias_data (Conv2d c) t = Conv2d (c\<lparr>bias := Some t\<rparr>)"
| "set_bias_data (Linear l) t = Linear (l\<lparr>lin_bias := Some t\<rparr>)"
| "set_bias_data (BatchNorm2d b) t = BatchNorm2d (b\<lparr>bn_bias := Some t\<rparr>)"
| "set_bias_data lyr t = lyr"

text \<open>
  \<open>factor = gamma / sigmasq.sqrt()\<close>, with \<open>gamma = bn.weight\<close> when \<open>bn.affine\<close> and
  \<open>1.0\<close> otherwise.
\<close>

definition bn_factor :: "real batchnorm2d \<Rightarrow> error + real tensor" where
  "bn_factor bn =
     (case running_var bn of
        None \<Rightarrow> Inl (AttributeError ''NoneType object has no attribute sqrt'')
      | Some sigmasq \<Rightarrow>
         (case (if affine bn then bn_weight bn else Some (scalar 1)) of
            None \<Rightarrow> Inl (TypeError ''unsupported operand type(s) for /'')
          | Some gamma \<Rightarrow> binop (/) gamma (tensor_sqrt sigmasq)))"

text \<open>\<open>c_weight * factor[:, None, None, None]\<close>.\<close>

definition folded_weight :: "real tensor \<Rightarrow> real tensor \<Rightarrow> error + real tensor" where
  "folded_weight c_weight factor =
     (case unsqueeze3 factor of
        Inl e \<Rightarrow> Inl e
      | Inr f \<Rightarrow> binop (*) c_weight f)"

text \<open>
  \<open>beta + (c_bias - mu) * factor\<close>, with \<open>beta = bn.bias\<close> when \<open>bn.affine\<close> and \<open>0.0\<close>
  otherwise.
\<close>

definition folded_bias ::
  "real batchnorm2d \<Rightarrow> real tensor \<Rightarrow> real tensor \<Rightarrow> error + real tensor" where
  "folded_bias bn c_bias factor =
     (case running_mean bn of
        None \<Rightarrow> Inl (TypeError ''unsupported operand type(s) for -'')
      | Some mu \<Rightarrow>
         (case binop (-) c_bias mu of
            Inl e \<Rightarrow> Inl e
          | Inr d \<Rightarrow>
             (case binop (*) d factor of
                Inl e \<Rightarrow> Inl e
              | Inr df \<Rightarrow>
                 (case (if affine bn then bn_bias bn else Some (scalar 0)) of
                    None \<Rightarrow> Inl (TypeError ''unsupported operand type(s) for +'')
                  | Some beta \<Rightarrow> binop (+) beta df))))"

text \<open>
  \<open>merge_conv_bn(conv, bn)\<close> on the heap, statement by statement: the factor; the clones
  \<open>c_weight\<close> and \<open>c_bias\<close> (\<open>0.0\<close> when \<open>conv.bias is None\<close>); \<open>conv = deepcopy(conv)\<close>;
  the assignment to \<open>conv.weight.data\<close>; the assignment to \<open>conv.bias.data\<close>, whose right
  side is evaluated before the target \<open>conv.bias\<close>, which has no attribute \<open>data\<close> when it
  is \<open>None\<close>. The result is the heap and the reference returned, or the exception.
\<close>

definition merge_conv_bn :: "real heap \<Rightarrow> nat \<Rightarrow> nat \<Rightarrow> real heap \<times> (error + nat)" where
  "merge_conv_bn h conv bn =
     (case heap_get h bn of
        Some (BatchNorm2d b) \<Rightarrow>
          (case bn_factor b of
             Inl e \<Rightarrow> (h, Inl e)
           | Inr factor \<Rightarrow>
          (case heap_get h conv of
             None \<Rightarrow> (h, Inl (AttributeError ''weight''))
           | Some conv_obj \<Rightarrow>
          (case get_weight conv_obj of
             None \<Rightarrow> (h, Inl (AttributeError ''weight''))
           | Some None \<Rightarrow> (h, Inl (AttributeError ''NoneType object has no attribute data''))
           | Some (Some c_weight) \<Rightarrow>
          (case get_bias conv_obj of
             None \<Rightarrow> (h, Inl (AttributeError ''bias''))
           | Some bias_attr \<Rightarrow>
          (let c_bias = (case bias_attr of None \<Rightarrow> scalar 0 | Some b \<Rightarrow> b);
               (h1, conv') = alloc h conv_obj
           in case folded_weight c_weight factor of
                Inl e \<Rightarrow> (h1, Inl e)
              | Inr w \<Rightarrow>
             (let h2 = h1[conv' := set_weight_data (h1 ! conv') w]
              in case folded_bias b c_bias factor of
                   Inl e \<Rightarrow> (h2, Inl e)
                 | Inr new_bias \<Rightarrow>
                (case get_bias (h2 ! conv') of
                   Some (Some old) \<Rightarrow>
                     (h2[conv' := set_bias_data (h2 ! conv') new_bias], Inr conv')
                 | _ \<Rightarrow>
                     (h2, Inl (AttributeError
                        ''NoneType object has no attribute data'')))))))))
      | _ \<Rightarrow> (h, Inl (AttributeError ''running_mean'')))"

text \<open>
  The examples: a convolution with two output channels, with and without bias, and an
  affine batch normalisation with \<open>mu = (1, 0)\<close>, \<open>sigmasq = (4, 1)\<close>, \<open>gamma = (4, 3)\<close>
  and \<open>beta = (0, 5)\<close>, so that the factor is (2, 3).
\<close>

definition example_conv :: "real tensor option \<Rightarrow> real conv2d" where
  "example_conv b =
     \<lparr>in_channels = 1, out_channels = 2, kernel_size = (1, 1), stride = (1, 1),
      padding = (0, 0), dilation = (1, 1), weight = Tensor [2, 1, 1, 1] [2, 3], bias = b\<rparr>"

definition example_bn :: "real batchnorm2d" where
  "example_bn =
     \<lparr>affine = True, running_mean = Some (Tensor [2] [1, 0]),
      running_var = Some (Tensor [2] [4, 1]), bn_weight = Some (Tensor [2] [4, 3]),
      bn_bias = Some (Tensor [2] [0, 5])\<rparr>"

section \<open>Building a hardware layer: \<open>construct_next_dynapcnn_layer\<close> and \<open>DynapcnnLayer\<close>\<close>







text \<open>
  \<open>DynapcnnLayer.__init__(dcnnl_data, discretize, nodes_mapper, rescale_weights)\<close> of
  \<open>dynapcnn_layer_new.py\<close>. \<open>dcnnl_data\<close> is a dict; its entries with an int key, in
  insertion order, are the nodes: the reference of the layer, the input shape and the output
  shape (other keys are skipped by the loop and never read). \<open>nodes_mapper\<close> is not used.
\<close>

record node_data =
  node_layer :: nat
  input_shape :: "int \<times> int \<times> int"
  output_shape :: "int \<times> int \<times> int"

record dynapcnn_layer =
  lin_to_conv_conversion :: bool
  spk_node_id :: "int option"
  conv_layer :: nat
  spk_layer :: nat
  pool_layer :: "nat list"

text \<open>Decimal digits of an int, for the message that names a node.\<close>

fun str_nat :: "nat \<Rightarrow> string" where
  "str_nat n =
     (if n < 10 then [char_of (48 + n)] else str_nat (n div 10) @ [char_of (48 + n mod 10)])"

definition str_int :: "int \<Rightarrow> string" where
  "str_int i = (if i < 0 then CHR ''-'' # str_nat (nat (- i)) else str_nat (nat i))"



text \<open>\<open>dcnnl_data[key][field] = value\<close> for the two shape fields.\<close>

definition set_output_shape ::
  "(int \<times> node_data) list \<Rightarrow> int \<Rightarrow> int \<times> int \<times> int \<Rightarrow> (int \<times> node_data) list" where
  "set_output_shape d key shp =
     map (\<lambda>(k, v). if k = key then (k, v\<lparr>output_shape := shp\<rparr>) else (k, v)) d"

definition set_input_shape ::
  "(int \<times> node_data) list \<Rightarrow> int \<Rightarrow> int \<times> int \<times> int \<Rightarrow> (int \<times> node_data) list" where
  "set_input_shape d key shp =
     map (\<lambda>(k, v). if k = key then (k, v\<lparr>input_shape := shp\<rparr>) else (k, v)) d"

text \<open>
  The branch on the class of \<open>conv\<close>: a \<open>Linear\<close> is converted to a new \<open>Conv2d\<close> and the
  shapes of its node and of the spiking node are updated; a \<open>Conv2d\<close> is deep-copied.
  The result is the heap, the node data, and the reference of the new convolution with
  the flag \<open>lin_to_conv_conversion\<close>. The scan only finds objects of these two classes,
  so the last branch is not reached.
\<close>

definition copy_or_convert ::
  "'a heap \<Rightarrow> (int \<times> node_data) list \<Rightarrow> nat \<times> int \<Rightarrow> int \<Rightarrow>
   'a heap \<times> (int \<times> node_data) list \<times> (error + nat \<times> bool)" where
  "copy_or_convert h d conv spk_key =
     (case conv of (conv_ref, conv_node_id) \<Rightarrow>
      (case heap_get h conv_ref of
         Some (Linear lin) \<Rightarrow>
           (case map_of d conv_node_id of
              None \<Rightarrow> (h, d, Inl (KeyError (str_int conv_node_id)))
            | Some layer_data \<Rightarrow>
           (case convert_linear_to_conv lin (input_shape layer_data) of
              Inl e \<Rightarrow> (h, d, Inl e)
            | Inr (c, conv_in_shape) \<Rightarrow>
           (case alloc h (Conv2d c) of (h1, new_ref) \<Rightarrow>
           (case get_conv_output_shape c conv_in_shape of
              Inl e \<Rightarrow> (h1, d, Inl e)
            | Inr conv_out_shape \<Rightarrow>
               (let d1 = set_output_shape d conv_node_id conv_out_shape;
                    d2 = set_input_shape d1 spk_key conv_out_shape;
                    d3 = set_output_shape d2 spk_key conv_out_shape
                in (h1, d3, Inr (new_ref, True)))))))
       | Some (Conv2d c) \<Rightarrow>
           (case alloc h (Conv2d c) of (h1, new_ref) \<Rightarrow> (h1, d, Inr (new_ref, False)))
       | _ \<Rightarrow> (h, d, Inl (ValueError ''Convolution layer not present.''))))"
















section \<open>Output shape of a convolution\<close>

text \<open>
  C3. For a convolution with kernel (kh, kw), stride (sh, sw), padding (ph, pw) and
  dilation (dh, dw), and an input of shape (C, H, W), the computed output shape is
  (out_channels, floor((H + 2 ph - dh (kh - 1) - 1) / sh) + 1,
  floor((W + 2 pw - dw (kw - 1) - 1) / sw) + 1): the same formula on height and on width,
  with the floor of the exact quotient. The quotient exists when the strides are not zero.
\<close>

theorem get_conv_output_shape_formula:
  assumes "kernel_size conv = (kh, kw)" and "stride conv = (sh, sw)"
    and "padding conv = (ph, pw)" and "dilation conv = (dh, dw)"
    and "sh \<noteq> 0" and "sw \<noteq> 0"
  shows "get_conv_output_shape conv (C, H, W) =
           Inr (out_channels conv,
                \<lfloor>real_of_int (H + 2 * ph - dh * (kh - 1) - 1) / real_of_int sh\<rfloor> + 1,
                \<lfloor>real_of_int (W + 2 * pw - dw * (kw - 1) - 1) / real_of_int sw\<rfloor> + 1)"
proof -
  have fl: "\<lfloor>real_of_int a / real_of_int b\<rfloor> = a div b" for a b :: int
    by (rule floor_divide_of_int_eq)
  show ?thesis
    unfolding fl using assms by (simp add: get_conv_output_shape_def floordiv_def)
qed

text \<open>
  The case of the specification: input (3, 32, 32), kernel 3, stride 1, padding 0 (and
  dilation 1) gives height and width 30.
\<close>

theorem get_conv_output_shape_formula_witness:
  "get_conv_output_shape
     \<lparr>in_channels = 3, out_channels = 8, kernel_size = (3, 3), stride = (1, 1),
      padding = (0, 0), dilation = (1, 1),
      weight = Tensor [8, 3, 3, 3] (replicate 216 (0::real)), bias = None\<rparr> (3, 32, 32)
   = Inr (8, 30, 30)"
  using get_conv_output_shape_formula
    [where conv = "\<lparr>in_channels = 3, out_channels = 8, kernel_size = (3, 3),
      stride = (1, 1), padding = (0, 0), dilation = (1, 1),
      weight = Tensor [8, 3, 3, 3] (replicate 216 (0::real)), bias = None\<rparr>"
      and kh = 3 and kw = 3 and sh = 1 and sw = 1 and ph = 0 and pw = 0 and dh = 1 and dw = 1
      and C = 3 and H = 32 and W = 32]
  by simp

section \<open>Pooling consolidation\<close>

lemma passes_checks_pair:
  assumes "passes_checks l"
  obtains a b where "expand_to_pair (pool_kernel_size l) = PairSize a b"
    and "expand_to_pair (pool_stride l) = PairSize a b"
  using assms
  by (cases "pool_kernel_size l") (auto simp: passes_checks_def kernel_eq_stride_def)

lemma passes_step:
  assumes "passes_checks l"
  shows "pooling_loop (l # rest) i idx cp rf =
         pooling_loop rest (Suc i) i (fst cp * fst (kernel_pair l), snd cp * snd (kernel_pair l))
            (rf * (fst (kernel_pair l) * snd (kernel_pair l)))"
proof -
  obtain a b where k: "expand_to_pair (pool_kernel_size l) = PairSize a b"
    and s: "expand_to_pair (pool_stride l) = PairSize a b"
    using assms by (rule passes_checks_pair)
  have attrs: "pooling_attrs l = Some (Inr (pool_kernel_size l, pool_stride l))"
    using assms by (cases l) (auto simp: passes_checks_def)
  show ?thesis
    by (simp add: attrs accumulate_pooling_def kernel_pair_def k s)
qed

lemma pooling_loop_chain:
  assumes "\<forall>l\<in>set chain. passes_checks l"
  shows "pooling_loop (chain @ rest) i idx cp rf =
         pooling_loop rest (i + length chain) (if chain = [] then idx else i + length chain - 1)
           (fst cp * prod_list (map (\<lambda>l. fst (kernel_pair l)) chain),
            snd cp * prod_list (map (\<lambda>l. snd (kernel_pair l)) chain))
           (rf * prod_list (map (\<lambda>l. fst (kernel_pair l) * snd (kernel_pair l)) chain))"
  using assms
proof (induction chain arbitrary: i idx cp rf)
  case Nil
  then show ?case by simp
next
  case (Cons l chain)
  then show ?case
    by (simp add: passes_step mult.assoc del: pooling_loop.simps)
qed

lemma prod_list_area:
  "prod_list (map (\<lambda>l. f l * g l) xs) = prod_list (map f xs) * (prod_list (map g xs) :: int)"
  by (induction xs) (simp_all add: mult_ac)


lemma chain_rescale_kernel:
  "chain_rescale chain = fst (chain_kernel chain) * snd (chain_kernel chain)"
  by (simp add: chain_rescale_def chain_kernel_def prod_list_area)

lemma pooling_attrs_None: "pooling_attrs l = None \<longleftrightarrow> \<not> is_pooling l"
  by (cases l) auto

lemma pooling_loop_ends:
  assumes "chain_ends rest"
  shows "pooling_loop rest i idx cp rf = Inr (if rest = [] then idx else i, cp, rf)"
  using assms by (cases rest) (auto simp: pooling_attrs_None[THEN iffD2])

lemma construct_next_pooling_layer_chain:
  assumes "\<forall>l\<in>set chain. passes_checks l" and "chain_ends rest"
  shows "construct_next_pooling_layer (chain @ rest) =
           Inr (if chain_kernel chain = (1, 1) then None else Some (chain_kernel chain),
                if rest = [] then length chain - 1 else length chain,
                chain_rescale chain)"
proof -
  have loop: "pooling_loop (chain @ rest) 0 0 (1, 1) 1 =
      Inr (if rest = [] then length chain - 1 else length chain,
           chain_kernel chain, chain_rescale chain)"
    using assms
    by (simp add: pooling_loop_chain pooling_loop_ends chain_kernel_def chain_rescale_def)
  have one: "chain_rescale chain = 1" if "chain_kernel chain = (1, 1)"
    using that by (simp add: chain_rescale_kernel)
  show ?thesis
    unfolding construct_next_pooling_layer_def loop using one by simp
qed

lemma pools_with_passes:
  assumes "pools_with lyr kern"
  shows "passes_checks lyr \<and> kernel_pair lyr = kern"
  using assms
  by (cases lyr; cases "pool_kernel_size lyr"; cases "pool_stride lyr")
     (auto simp: passes_checks_def kernel_eq_stride_def kernel_pair_def)

lemma pools_with_chain:
  assumes "list_all2 pools_with chain kernels"
  shows "(\<forall>l\<in>set chain. passes_checks l) \<and> chain_kernel chain = kernels_product kernels
       \<and> chain_rescale chain = areas_product kernels"
  using assms
proof (induction rule: list_all2_induct)
  case Nil
  then show ?case
    by (simp add: chain_kernel_def chain_rescale_def kernels_product_def areas_product_def)
next
  case (Cons lyr chain kern kernels)
  from pools_with_passes[OF Cons.hyps(1)] Cons.IH show ?case
    by (auto simp: chain_kernel_def chain_rescale_def kernels_product_def areas_product_def
        case_prod_unfold)
qed

text \<open>
  The loop itself, run on a pooling of kernel 3 (a number) with stride (3, 3) followed by
  a pooling of kernel (2, 5).
\<close>

lemma number_kernel_chain:
  "construct_next_pooling_layer
      [AvgPool2d (IntSize 3) (PairSize 3 3) (IntSize 0),
       SumPool2d (PairSize 2 5) (PairSize 2 5) :: real layer]
     = Inr (Some (6, 15), 1, 90)"
  by (simp add: construct_next_pooling_layer_def accumulate_pooling_def)

text \<open>
  C4, as the source has it. For a maximal chain of pooling layers with the kernels
  \<open>kernels\<close>, each with stride equal to its kernel and zero padding,
  \<open>construct_next_pooling_layer\<close> returns the product of the kernel areas as the rescale
  factor and, when the elementwise product of the kernels is not (1, 1), that product as
  the kernel of the one sum-pooling that replaces the chain. When the product is (1, 1),
  for the empty chain and also for a chain of poolings of kernel 1, no pooling layer is
  returned, and the rescale factor is 1.
\<close>

theorem pooling_chain_consolidated:
  assumes "list_all2 pools_with chain kernels" and "chain_ends rest"
  shows "construct_next_pooling_layer (chain @ rest) =
           Inr (if kernels_product kernels = (1, 1) then None
                else Some (kernels_product kernels),
                if rest = [] then length chain - 1 else length chain,
                areas_product kernels)"
proof -
  from pools_with_chain[OF assms(1)]
  have pass: "\<forall>l\<in>set chain. passes_checks l"
    and k: "chain_kernel chain = kernels_product kernels"
    and r: "chain_rescale chain = areas_product kernels"
    by simp_all
  from construct_next_pooling_layer_chain[OF pass assms(2)] show ?thesis
    unfolding k r .
qed

text \<open>
  Two average-poolings with kernel and stride (2, 2), given as the number 2 or as a pair,
  give kernel (4, 4) and rescale factor 16; a pooling of kernel 3 followed by one of
  kernel (2, 5) gives kernel (6, 15) and rescale factor 90; the empty chain gives no
  pooling layer and rescale factor 1.
\<close>

theorem pooling_chain_consolidated_witness:
  "construct_next_pooling_layer
      ([AvgPool2d (IntSize 2) (IntSize 2) (IntSize 0),
        AvgPool2d (PairSize 2 2) (IntSize 2) (IntSize 0)] @ [OtherLayer ''Conv2d'' :: real layer])
     = Inr (Some (4, 4), 2, 16)
   \<and> construct_next_pooling_layer
      ([AvgPool2d (IntSize 3) (PairSize 3 3) (IntSize 0),
        SumPool2d (PairSize 2 5) (PairSize 2 5)] @ ([] :: real layer list))
     = Inr (Some (6, 15), 1, 90)
   \<and> construct_next_pooling_layer ([] @ [OtherLayer ''Conv2d'' :: real layer]) = Inr (None, 0, 1)
   \<and> construct_next_pooling_layer ([] @ ([] :: real layer list)) = Inr (None, 0, 1)"
  using pooling_chain_consolidated
    [of "[AvgPool2d (IntSize 2) (IntSize 2) (IntSize 0),
          AvgPool2d (PairSize 2 2) (IntSize 2) (IntSize 0)]" "[(2, 2), (2, 2)]"
        "[OtherLayer ''Conv2d'' :: real layer]"]
    pooling_chain_consolidated
    [of "[AvgPool2d (IntSize 3) (PairSize 3 3) (IntSize 0),
          SumPool2d (PairSize 2 5) (PairSize 2 5)]" "[(3, 3), (2, 5)]" "[] :: real layer list"]
    pooling_chain_consolidated [of "[]" "[]" "[OtherLayer ''Conv2d'' :: real layer]"]
    pooling_chain_consolidated [of "[]" "[]" "[] :: real layer list"]
  by (simp add: kernels_product_def areas_product_def)

text \<open>
  The claim as stated fails on a chain that is not empty: one average-pooling with kernel
  and stride 1 passes the checks, and the product of the kernels is (1, 1); no sum-pooling
  of kernel (1, 1) is returned for it, but no pooling layer at all.
\<close>

theorem unit_chain_counterexample:
  "construct_next_pooling_layer [AvgPool2d (IntSize 1) (IntSize 1) (IntSize 0) :: real layer]
     = Inr (None, 0, 1)
   \<and> construct_next_pooling_layer [AvgPool2d (IntSize 1) (IntSize 1) (IntSize 0) :: real layer]
     \<noteq> Inr (Some (1, 1), 0, 1)"
  by (simp add: construct_next_pooling_layer_def accumulate_pooling_def)

lemma pooling_loop_success:
  assumes "pooling_loop layers i idx cp rf = Inr res"
  shows "\<forall>l\<in>set (takeWhile is_pooling layers). kernel_eq_stride l \<and> \<not> padding_nonzero l"
  using assms
proof (induction layers arbitrary: i idx cp rf)
  case Nil
  then show ?case by simp
next
  case (Cons l layers)
  show ?case
  proof (cases "is_pooling l")
    case False
    then show ?thesis by simp
  next
    case True
    then obtain k s where attrs: "pooling_attrs l = Some (Inr (k, s))"
      and k: "k = pool_kernel_size l" and s: "s = pool_stride l" and pad: "\<not> padding_nonzero l"
      using Cons.prems by (cases l) (auto split: if_splits)
    from Cons.prems attrs obtain cp' rf' where
      acc: "accumulate_pooling k s cp rf = Inr (cp', rf')"
      and rec: "pooling_loop layers (Suc i) i cp' rf' = Inr res"
      by (auto split: sum.splits)
    from acc have "kernel_eq_stride l"
      by (auto simp: accumulate_pooling_def kernel_eq_stride_def k s Let_def split: if_splits)
    with pad Cons.IH[OF rec] True show ?thesis by simp
  qed
qed

lemma pooling_loop_bad:
  assumes "is_pooling bad" and "\<not> kernel_eq_stride bad \<or> padding_nonzero bad"
  shows "pooling_loop (bad # rest) i idx cp rf =
     Inl (ValueError (if padding_nonzero bad
        then ''Padding is not supported for the pooling layers''
        else ''Stride length should be the same as pooling kernel size''))"
  using assms
  by (cases bad) (auto simp: kernel_eq_stride_def accumulate_pooling_def Let_def)

text \<open>
  C6. A pooling layer reached by the scan, average or sum pooling alike, whose kernel
  differs from its stride or whose padding is not 0 makes \<open>construct_next_pooling_layer\<close>
  raise \<open>ValueError\<close> (the padding message first); and the function returns only when
  every layer it scanned has kernel equal to stride and padding 0.
\<close>

theorem pooling_checks_enforced:
  assumes "\<forall>l\<in>set chain. passes_checks l" and "is_pooling bad"
  shows "(\<not> kernel_eq_stride bad \<or> padding_nonzero bad \<longrightarrow>
            construct_next_pooling_layer (chain @ bad # rest) =
              Inl (ValueError (if padding_nonzero bad
                 then ''Padding is not supported for the pooling layers''
                 else ''Stride length should be the same as pooling kernel size'')))
       \<and> (\<forall>res. construct_next_pooling_layer layers = Inr res \<longrightarrow>
            (\<forall>l\<in>set (takeWhile is_pooling layers). kernel_eq_stride l \<and> \<not> padding_nonzero l))"
proof (intro conjI impI allI)
  assume bad: "\<not> kernel_eq_stride bad \<or> padding_nonzero bad"
  show "construct_next_pooling_layer (chain @ bad # rest) =
              Inl (ValueError (if padding_nonzero bad
                 then ''Padding is not supported for the pooling layers''
                 else ''Stride length should be the same as pooling kernel size''))"
    unfolding construct_next_pooling_layer_def
      pooling_loop_chain[OF assms(1)] pooling_loop_bad[OF assms(2) bad]
    by simp
next
  fix res
  assume "construct_next_pooling_layer layers = Inr res"
  then obtain r where "pooling_loop layers 0 0 (1, 1) 1 = Inr r"
    by (auto simp: construct_next_pooling_layer_def split: sum.splits)
  then show "\<forall>l\<in>set (takeWhile is_pooling layers). kernel_eq_stride l \<and> \<not> padding_nonzero l"
    by (rule pooling_loop_success)
qed



theorem pooling_checks_enforced_witness:
  "construct_next_pooling_layer
      ([AvgPool2d (IntSize 2) (IntSize 2) (IntSize 0)] @
        SumPool2d (PairSize 2 2) (PairSize 1 1) # [OtherLayer ''Conv2d'' :: real layer])
     = Inl (ValueError ''Stride length should be the same as pooling kernel size'')
   \<and> construct_next_pooling_layer
      ([AvgPool2d (IntSize 2) (IntSize 2) (IntSize 0)] @
        AvgPool2d (PairSize 2 2) (PairSize 2 2) (IntSize 1) # [OtherLayer ''Conv2d'' :: real layer])
     = Inl (ValueError ''Padding is not supported for the pooling layers'')
   \<and> kernel_eq_stride (AvgPool2d (IntSize 2) (PairSize 2 2) (IntSize 0) :: real layer)
   \<and> \<not> padding_nonzero (AvgPool2d (IntSize 2) (PairSize 2 2) (IntSize 0) :: real layer)"
  using pooling_checks_enforced
    [of "[AvgPool2d (IntSize 2) (IntSize 2) (IntSize 0)]"
        "SumPool2d (PairSize 2 2) (PairSize 1 1) :: real layer" "[OtherLayer ''Conv2d'']"
        "[AvgPool2d (IntSize 2) (PairSize 2 2) (IntSize 0), OtherLayer ''Conv2d'']"]
    pooling_checks_enforced
    [of "[AvgPool2d (IntSize 2) (IntSize 2) (IntSize 0)]"
        "AvgPool2d (PairSize 2 2) (PairSize 2 2) (IntSize 1) :: real layer" "[OtherLayer ''Conv2d'']" "[]"]
  by (simp add: passes_checks_def kernel_eq_stride_def construct_next_pooling_layer_def
      accumulate_pooling_def)

section \<open>Linear layer to convolution\<close>

lemma mixed_radix_bound:
  fixes a b m n :: nat
  assumes "a < m" and "b < n"
  shows "a * n + b < m * n"
proof -
  have "a * n + b < a * n + n" using assms(2) by simp
  also have "\<dots> = Suc a * n" by simp
  also have "\<dots> \<le> m * n" using assms(1) by (intro mult_le_mono1) simp
  finally show ?thesis .
qed

lemma idx_bound:
  fixes c h w C H W :: nat
  assumes "c < C" "h < H" "w < W"
  shows "c * H * W + h * W + w < C * H * W"
proof -
  have "h * W + w < H * W"
    using assms(2,3) by (rule mixed_radix_bound)
  with assms(1) have "c * (H * W) + (h * W + w) < C * (H * W)"
    by (rule mixed_radix_bound)
  then show ?thesis by (simp add: mult.assoc add.assoc)
qed

lemma reshape_exact:
  assumes "\<forall>d\<in>set dims. 0 \<le> d" and "prod_list (map nat dims) = length (data t)"
  shows "reshape t dims = Inr (Tensor (map nat dims) (data t))"
proof -
  have f: "filter (\<lambda>d. d \<noteq> - 1) dims = dims"
    using assms(1) by (auto simp: filter_id_conv)
  have n: "\<not> (\<exists>d\<in>set dims. d < - 1)"
    using assms(1) by auto
  show ?thesis
    using n assms(2) unfolding reshape_def f Let_def by auto
qed

lemma stretch_id: "i < d \<Longrightarrow> (if d = Suc 0 then 0 else i) = i"
  by auto

lemma convert_linear_to_conv_mismatch:
  assumes "in_features lin \<noteq> C * H * W"
  shows "convert_linear_to_conv lin (C, H, W) = Inl (ValueError ''Shapes don't match.'')"
  using assms by (simp add: convert_linear_to_conv_def)

lemma convert_linear_to_conv_match:
  assumes wf: "linear_wf lin" and pos: "0 < C" "0 < H" "0 < W"
    and eq: "in_features lin = C * H * W"
  shows "convert_linear_to_conv lin (C, H, W) =
     Inr (\<lparr>in_channels = C, out_channels = out_features lin, kernel_size = (H, W),
           stride = (1, 1), padding = (0, 0), dilation = (1, 1),
           weight = Tensor [nat (out_features lin), nat C, nat H, nat W] (data (lin_weight lin)),
           bias = lin_bias lin\<rparr>, (C, H, W))"
proof -
  have out: "0 \<le> out_features lin" using wf by (simp add: linear_wf_def)
  have len: "length (data (lin_weight lin)) = nat (out_features lin) * nat (C * H * W)"
    using wf eq by (simp add: linear_wf_def)
  have "nat (C * H * W) = nat C * nat H * nat W"
    using pos by (simp add: nat_mult_distrib)
  with len have "prod_list (map nat [out_features lin, C, H, W]) = length (data (lin_weight lin))"
    by (simp add: mult.assoc)
  moreover have "\<forall>d\<in>set [out_features lin, C, H, W]. 0 \<le> d"
    using out pos by simp
  ultimately have "reshape (lin_weight lin) [out_features lin, C, H, W] =
      Inr (Tensor (map nat [out_features lin, C, H, W]) (data (lin_weight lin)))"
    by (intro reshape_exact)
  then show ?thesis
    using eq out pos by (simp add: convert_linear_to_conv_def)
qed

lemma reshape_index:
  fixes no nc nh nw :: nat
  assumes "shape t = [no, nc * nh * nw]" and "o' < no" "c < nc" "h < nh" "w < nw"
  shows "tensor_at (Tensor [no, nc, nh, nw] (data t)) [o', c, h, w] =
         tensor_at t [o', c * nh * nw + h * nw + w]"
proof -
  have b: "c * nh * nw + h * nw + w < nc * nh * nw"
    using assms(3-5) by (rule idx_bound)
  have l: "offset_rev [nw, nh, nc, no] [w, h, c, o'] = w + nw * (h + nh * (c + nc * o'))"
    using assms(2-5) by (simp add: stretch_id)
  have r: "offset_rev [nc * nh * nw, no] [c * nh * nw + h * nw + w, o'] =
            c * nh * nw + h * nw + w + nc * nh * nw * o'"
  proof -
    have s0: "(if nc * nh * nw = 1 then 0 else c * nh * nw + h * nw + w) =
                c * nh * nw + h * nw + w"
      using stretch_id[OF b] by simp
    have s1: "(if no = 1 then 0 else o') = o'"
      using stretch_id[OF assms(2)] by simp
    show ?thesis
      unfolding offset_rev.simps s0 s1 by simp
  qed
  show ?thesis
    unfolding tensor_at_def using assms(1) l r by (simp add: algebra_simps)
qed

text \<open>
  C2. For a Linear with declared input shape (C, H, W): when \<open>in_features\<close> differs from
  C H W the conversion fails with the shape mismatch error; otherwise it produces a
  convolution with kernel (H, W), \<open>out_features\<close> output channels, padding 0 and stride 1
  whose weight has shape (out_features, C, H, W) over the unchanged storage of the linear
  weight: entry (o, c, h, w) is entry (o, c H W + h W + w) of the linear weight, and
  reshaping back to (out_features, in_features) gives the linear weight itself.
\<close>

theorem convert_linear_to_conv_exact:
  assumes "linear_wf lin" and "0 < C" and "0 < H" and "0 < W"
  shows "(in_features lin \<noteq> C * H * W \<longrightarrow>
            convert_linear_to_conv lin (C, H, W) = Inl (ValueError ''Shapes don't match.''))
       \<and> (in_features lin = C * H * W \<longrightarrow>
            (\<exists>conv. convert_linear_to_conv lin (C, H, W) = Inr (conv, (C, H, W))
               \<and> kernel_size conv = (H, W) \<and> out_channels conv = out_features lin
               \<and> padding conv = (0, 0) \<and> stride conv = (1, 1)
               \<and> shape (weight conv) = [nat (out_features lin), nat C, nat H, nat W]
               \<and> data (weight conv) = data (lin_weight lin)
               \<and> reshape (weight conv) [out_features lin, in_features lin]
                     = Inr (lin_weight lin)
               \<and> (\<forall>o' < nat (out_features lin). \<forall>c < nat C. \<forall>h < nat H. \<forall>w < nat W.
                     tensor_at (weight conv) [o', c, h, w] =
                     tensor_at (lin_weight lin) [o', c * nat H * nat W + h * nat W + w])))"
proof (intro conjI impI)
  assume "in_features lin \<noteq> C * H * W"
  then show "convert_linear_to_conv lin (C, H, W) = Inl (ValueError ''Shapes don't match.'')"
    by (rule convert_linear_to_conv_mismatch)
next
  assume eq: "in_features lin = C * H * W"
  define conv where "conv = \<lparr>in_channels = C, out_channels = out_features lin,
     kernel_size = (H, W), stride = (1, 1), padding = (0, 0), dilation = (1, 1),
     weight = Tensor [nat (out_features lin), nat C, nat H, nat W] (data (lin_weight lin)),
     bias = lin_bias lin\<rparr>"
  have res: "convert_linear_to_conv lin (C, H, W) = Inr (conv, (C, H, W))"
    unfolding conv_def using assms eq by (rule convert_linear_to_conv_match)
  have nat_eq: "nat (C * H * W) = nat C * nat H * nat W"
    using assms(2-4) by (simp add: nat_mult_distrib)
  have shp: "shape (lin_weight lin) = [nat (out_features lin), nat C * nat H * nat W]"
    using assms(1) eq nat_eq by (simp add: linear_wf_def)
  have len: "length (data (lin_weight lin)) = nat (out_features lin) * nat (in_features lin)"
    using assms(1) by (simp add: linear_wf_def)
  have nonneg: "\<forall>d\<in>set [out_features lin, in_features lin]. 0 \<le> d"
    using assms(1) by (simp add: linear_wf_def)
  have "reshape (weight conv) [out_features lin, in_features lin] =
          Inr (Tensor (map nat [out_features lin, in_features lin]) (data (weight conv)))"
    using nonneg len by (intro reshape_exact) (simp_all add: conv_def)
  also have "\<dots> = Inr (lin_weight lin)"
    using shp eq nat_eq by (cases "lin_weight lin") (simp add: conv_def)
  finally have flat: "reshape (weight conv) [out_features lin, in_features lin] =
      Inr (lin_weight lin)" .
  have idx: "\<forall>o' < nat (out_features lin). \<forall>c < nat C. \<forall>h < nat H. \<forall>w < nat W.
      tensor_at (weight conv) [o', c, h, w] =
      tensor_at (lin_weight lin) [o', c * nat H * nat W + h * nat W + w]"
    using reshape_index[OF shp] by (simp add: conv_def)
  show "\<exists>conv. convert_linear_to_conv lin (C, H, W) = Inr (conv, (C, H, W))
               \<and> kernel_size conv = (H, W) \<and> out_channels conv = out_features lin
               \<and> padding conv = (0, 0) \<and> stride conv = (1, 1)
               \<and> shape (weight conv) = [nat (out_features lin), nat C, nat H, nat W]
               \<and> data (weight conv) = data (lin_weight lin)
               \<and> reshape (weight conv) [out_features lin, in_features lin]
                     = Inr (lin_weight lin)
               \<and> (\<forall>o' < nat (out_features lin). \<forall>c < nat C. \<forall>h < nat H. \<forall>w < nat W.
                     tensor_at (weight conv) [o', c, h, w] =
                     tensor_at (lin_weight lin) [o', c * nat H * nat W + h * nat W + w])"
    using res flat idx by (intro exI[of _ conv]) (simp add: conv_def)
qed

text \<open>
  Linear(12, 4) with input shape (3, 2, 2) converts to a convolution with kernel (2, 2) and
  4 output channels whose weight, flattened back, is the linear weight; with input shape
  (3, 2, 3) the conversion fails.
\<close>

theorem convert_linear_to_conv_exact_witness:
  "(\<exists>conv. convert_linear_to_conv linear_12_4 (3, 2, 2) = Inr (conv, (3, 2, 2))
       \<and> kernel_size conv = (2, 2) \<and> out_channels conv = 4
       \<and> padding conv = (0, 0) \<and> stride conv = (1, 1)
       \<and> shape (weight conv) = [4, 3, 2, 2]
       \<and> data (weight conv) = [0..<48]
       \<and> reshape (weight conv) [4, 12] = Inr (Tensor [4, 12] [0..<48]))
   \<and> convert_linear_to_conv linear_12_4 (3, 2, 3) = Inl (ValueError ''Shapes don't match.'')"
proof -
  have wf: "linear_wf linear_12_4"
    by (simp add: linear_wf_def linear_12_4_def)
  have a: "in_features linear_12_4 = 3 * 2 * 2" and b: "in_features linear_12_4 \<noteq> 3 * 2 * 3"
    by (simp_all add: linear_12_4_def)
  from convert_linear_to_conv_exact[OF wf, of 3 2 2] a
  obtain conv where "convert_linear_to_conv linear_12_4 (3, 2, 2) = Inr (conv, (3, 2, 2))"
    "kernel_size conv = (2, 2)" "out_channels conv = out_features linear_12_4"
    "padding conv = (0, 0)" "stride conv = (1, 1)"
    "shape (weight conv) = [nat (out_features linear_12_4), nat 3, nat 2, nat 2]"
    "data (weight conv) = data (lin_weight linear_12_4)"
    "reshape (weight conv) [out_features linear_12_4, in_features linear_12_4]
        = Inr (lin_weight linear_12_4)"
    by auto
  then have "\<exists>conv. convert_linear_to_conv linear_12_4 (3, 2, 2) = Inr (conv, (3, 2, 2))
       \<and> kernel_size conv = (2, 2) \<and> out_channels conv = 4
       \<and> padding conv = (0, 0) \<and> stride conv = (1, 1)
       \<and> shape (weight conv) = [4, 3, 2, 2]
       \<and> data (weight conv) = [0..<48]
       \<and> reshape (weight conv) [4, 12] = Inr (Tensor [4, 12] [0..<48])"
    by (intro exI[of _ conv]) (simp add: linear_12_4_def)
  moreover from convert_linear_to_conv_exact[OF wf, of 3 2 3] b
  have "convert_linear_to_conv linear_12_4 (3, 2, 3) = Inl (ValueError ''Shapes don't match.'')"
    by simp
  ultimately show ?thesis by simp
qed

section \<open>Only validated configurations are returned\<close>

lemma underscore_make_config_validated:
  assumes "underscore_make_config chip_factory self chip_layers_ordering device monitor modifier
             = Inr (config, ok)"
  shows "\<exists>builder. chip_factory device = Inr builder
            \<and> validate_configuration builder config = Inr ok"
  using assms unfolding underscore_make_config_def
  by (auto simp: Let_def split: sum.splits option.splits if_splits)

text \<open>
  C8. \<open>make_config\<close> returns a configuration only when the validator of the device's
  builder accepts that very configuration; when \<open>_make_config\<close> reports it invalid,
  \<open>make_config\<close> raises the \<open>ValueError\<close> that names the device and returns nothing.
\<close>

theorem make_config_only_validated:
  "(make_config chip_factory self chip_layers_ordering device monitor config_modifier
       = Inr config \<longrightarrow>
      underscore_make_config chip_factory self chip_layers_ordering device monitor
        config_modifier = Inr (config, True)
      \<and> (\<exists>builder. chip_factory device = Inr builder
            \<and> validate_configuration builder config = Inr True))
   \<and> (underscore_make_config chip_factory self chip_layers_ordering device monitor
        config_modifier = Inr (rejected, False) \<longrightarrow>
      make_config chip_factory self chip_layers_ordering device monitor config_modifier
        = Inl (ValueError (''Generated config is not valid for '' @ device)))"
proof (intro conjI impI)
  assume ret: "make_config chip_factory self chip_layers_ordering device monitor
     config_modifier = Inr config"
  then show inner: "underscore_make_config chip_factory self chip_layers_ordering device
      monitor config_modifier = Inr (config, True)"
    by (auto simp: make_config_def split: sum.splits if_splits)
  then show "\<exists>builder. chip_factory device = Inr builder
            \<and> validate_configuration builder config = Inr True"
    by (rule underscore_make_config_validated)
next
  assume "underscore_make_config chip_factory self chip_layers_ordering device monitor
        config_modifier = Inr (rejected, False)"
  then show "make_config chip_factory self chip_layers_ordering device monitor
      config_modifier = Inl (ValueError (''Generated config is not valid for '' @ device))"
    by (simp add: make_config_def)
qed

theorem make_config_only_validated_witness:
  "make_config (example_builder 1) example_network Auto ''dynapcnndevkit:0'' MonitorNone None
     = Inr [MonitorCore (Some 1)]
   \<and> (\<exists>builder. example_builder 1 ''dynapcnndevkit:0'' = Inr builder
         \<and> validate_configuration builder [MonitorCore (Some 1)] = Inr True)
   \<and> make_config (example_builder 1) example_network Auto ''dynapcnndevkit:0''
       (MonitorStr ''all'') None
     = Inl (ValueError ''Generated config is not valid for dynapcnndevkit:0'')"
proof -
  have ok: "make_config (example_builder 1) example_network Auto ''dynapcnndevkit:0''
      MonitorNone None = Inr [MonitorCore (Some 1)]"
    by (simp add: make_config_def underscore_make_config_def example_builder_def
        example_network_def monitor_chip_layers_def)
  have bad: "underscore_make_config (example_builder 1) example_network Auto
      ''dynapcnndevkit:0'' (MonitorStr ''all'') None
      = Inr ([MonitorCore (Some 0), MonitorCore (Some 1)], False)"
    by (simp add: underscore_make_config_def example_builder_def example_network_def
        monitor_chip_layers_def)
  from make_config_only_validated
    [of "example_builder 1" example_network Auto "''dynapcnndevkit:0''" MonitorNone None
        "[MonitorCore (Some 1)]"] ok
  have "\<exists>builder. example_builder 1 ''dynapcnndevkit:0'' = Inr builder
         \<and> validate_configuration builder [MonitorCore (Some 1)] = Inr True"
    by blast
  moreover from make_config_only_validated
    [of "example_builder 1" example_network Auto "''dynapcnndevkit:0''" "MonitorStr ''all''"
        None _ "[MonitorCore (Some 0), MonitorCore (Some 1)]"] bad
  have "make_config (example_builder 1) example_network Auto ''dynapcnndevkit:0''
       (MonitorStr ''all'') None
     = Inl (ValueError ''Generated config is not valid for dynapcnndevkit:0'')"
    by simp
  ultimately show ?thesis using ok by simp
qed

section \<open>Folding a batch normalisation into a convolution\<close>

lemma alloc_frame: "alloc h obj = (h1, r) \<Longrightarrow> r = length h \<and> h1 = h @ [obj]"
  by (auto simp: alloc_def)

lemma merge_conv_bn_frame_aux:
  assumes "merge_conv_bn h conv bn = (h', res)"
  shows "length h \<le> length h' \<and> take (length h) h' = h
     \<and> (\<forall>r. res = Inr r \<longrightarrow> r = length h \<and> length h' = Suc (length h))"
  using assms unfolding merge_conv_bn_def alloc_def Let_def
  by (auto split: option.splits layer.splits sum.splits prod.splits)

lemma upt_0_2: "[0..<2] = [0, 1]"
  by (simp add: upt_rec)

lemma example_factor: "bn_factor example_bn = Inr (Tensor [2] [2, 3])"
  by (simp add: bn_factor_def example_bn_def binop_def broadcast_shapes_def tensor_at_def
      tensor_sqrt_def upt_0_2)

lemma example_weight:
  "folded_weight (Tensor [2, 1, 1, 1] [2, 3]) (Tensor [2] [2, 3]) = Inr (Tensor [2, 1, 1, 1] [4, 9])"
  by (simp add: folded_weight_def unsqueeze3_def binop_def broadcast_shapes_def tensor_at_def
      upt_0_2)

lemma example_bias:
  "folded_bias example_bn (Tensor [2] [1, 1]) (Tensor [2] [2, 3]) = Inr (Tensor [2] [0, 8])"
  by (simp add: folded_bias_def example_bn_def binop_def broadcast_shapes_def tensor_at_def
      upt_0_2)

lemma example_bias_absent:
  "folded_bias example_bn (scalar 0) (Tensor [2] [2, 3]) = Inr (Tensor [2] [- 2, 5])"
  by (simp add: folded_bias_def example_bn_def binop_def broadcast_shapes_def tensor_at_def
      scalar_def upt_0_2)

text \<open>
  With a bias the fold is as stated: weight (2, 3) times factor (2, 3), and bias
  \<open>beta + (bias - mu) * factor\<close> = (0 + (1 - 1) 2, 5 + (1 - 0) 3).
\<close>

lemma merge_with_bias:
  "merge_conv_bn [Conv2d (example_conv (Some (Tensor [2] [1, 1]))), BatchNorm2d example_bn] 0 1 =
     ([Conv2d (example_conv (Some (Tensor [2] [1, 1]))), BatchNorm2d example_bn,
       Conv2d ((example_conv (Some (Tensor [2] [0, 8])))\<lparr>weight := Tensor [2, 1, 1, 1] [4, 9]\<rparr>)],
      Inr 2)"
  by (simp add: merge_conv_bn_def heap_get_def alloc_def example_factor example_weight
      example_bias example_conv_def del: One_nat_def)

text \<open>
  C5, on a convolution without bias. The source takes \<open>c_bias = 0.0\<close> and computes the new
  bias \<open>beta + (0 - mu) * factor\<close> = (-2, 5), but then assigns it to \<open>conv.bias.data\<close>
  where \<open>conv.bias\<close> is \<open>None\<close>: the call raises \<open>AttributeError\<close> after the weight of the
  copy has been folded, and returns no convolution.
\<close>

theorem merge_conv_bn_without_bias:
  "merge_conv_bn [Conv2d (example_conv None), BatchNorm2d example_bn] 0 1 =
     ([Conv2d (example_conv None), BatchNorm2d example_bn,
       Conv2d ((example_conv None)\<lparr>weight := Tensor [2, 1, 1, 1] [4, 9]\<rparr>)],
      Inl (AttributeError ''NoneType object has no attribute data''))"
  by (simp add: merge_conv_bn_def heap_get_def alloc_def example_factor example_weight
      example_bias_absent example_conv_def del: One_nat_def)

lemma merge_conv_bn_result:
  assumes "merge_conv_bn h conv bn = (h', Inr r)"
  shows "\<exists>obj b factor c_weight bias_attr w new_bias.
           heap_get h conv = Some obj \<and> heap_get h bn = Some (BatchNorm2d b)
         \<and> bn_factor b = Inr factor
         \<and> get_weight obj = Some (Some c_weight) \<and> get_bias obj = Some bias_attr
         \<and> folded_weight c_weight factor = Inr w
         \<and> folded_bias b (case bias_attr of None \<Rightarrow> scalar 0 | Some t \<Rightarrow> t) factor
              = Inr new_bias
         \<and> h' = h @ [set_bias_data (set_weight_data obj w) new_bias]
         \<and> r = length h"
  using assms unfolding merge_conv_bn_def alloc_def Let_def
  by (auto split: option.splits layer.splits sum.splits prod.splits)

text \<open>
  C9. \<open>merge_conv_bn\<close> changes no object that existed before the call: the convolution
  passed in keeps its weight and bias. When the call returns, the reference returned is
  new, differs from the convolution passed in, and holds the copy with the folded weight
  and bias.
\<close>

theorem merge_conv_bn_frame:
  assumes "merge_conv_bn h conv bn = (h', res)"
  shows "(\<forall>a < length h. heap_get h' a = heap_get h a)
       \<and> (\<forall>r. res = Inr r \<longrightarrow>
             heap_get h r = None \<and> r \<noteq> conv \<and> heap_get h' conv = heap_get h conv
           \<and> (\<exists>obj w new_bias. heap_get h conv = Some obj
                \<and> heap_get h' r = Some (set_bias_data (set_weight_data obj w) new_bias)))"
proof (intro conjI allI impI)
  fix a assume "a < length h"
  moreover have "length h \<le> length h'" and "take (length h) h' = h"
    using merge_conv_bn_frame_aux[OF assms] by simp_all
  ultimately show "heap_get h' a = heap_get h a"
    by (metis heap_get_def nth_take order_less_le_trans)
next
  fix r assume "res = Inr r"
  with assms have m: "merge_conv_bn h conv bn = (h', Inr r)" by simp
  from merge_conv_bn_result[OF m] obtain obj w new_bias where
    obj: "heap_get h conv = Some obj"
    and h': "h' = h @ [set_bias_data (set_weight_data obj w) new_bias]"
    and r: "r = length h"
    by blast
  from obj have c: "conv < length h"
    by (simp add: heap_get_def split: if_splits)
  show "heap_get h r = None" using r by (simp add: heap_get_def)
  show "r \<noteq> conv" using r c by simp
  show "heap_get h' conv = heap_get h conv"
    using c h' by (simp add: heap_get_def nth_append)
  show "\<exists>obj w new_bias. heap_get h conv = Some obj
          \<and> heap_get h' r = Some (set_bias_data (set_weight_data obj w) new_bias)"
    using obj h' r by (auto simp: heap_get_def)
qed

theorem merge_conv_bn_frame_witness:
  "heap_get [Conv2d (example_conv (Some (Tensor [2] [1, 1]))), BatchNorm2d example_bn,
       Conv2d ((example_conv (Some (Tensor [2] [0, 8])))\<lparr>weight := Tensor [2, 1, 1, 1] [4, 9]\<rparr>)] 0
     = Some (Conv2d (example_conv (Some (Tensor [2] [1, 1]))))
   \<and> heap_get [Conv2d (example_conv (Some (Tensor [2] [1, 1]))), BatchNorm2d example_bn] 2 = None
   \<and> merge_conv_bn [Conv2d (example_conv (Some (Tensor [2] [1, 1]))), BatchNorm2d example_bn] 0 1 =
     ([Conv2d (example_conv (Some (Tensor [2] [1, 1]))), BatchNorm2d example_bn,
       Conv2d ((example_conv (Some (Tensor [2] [0, 8])))\<lparr>weight := Tensor [2, 1, 1, 1] [4, 9]\<rparr>)],
      Inr 2)"
  using merge_conv_bn_frame[OF merge_with_bias] merge_with_bias
  by (simp add: heap_get_def)

text \<open>The failure does not depend on the example: no convolution without bias is merged.\<close>

lemma merge_conv_bn_bias_none:
  assumes "heap_get h conv = Some (Conv2d c)" and "bias c = None"
  shows "\<exists>h' e. merge_conv_bn h conv bn = (h', Inl e)"
proof (cases "merge_conv_bn h conv bn")
  case (Pair h' res)
  show ?thesis
  proof (cases res)
    case (Inl e)
    with Pair show ?thesis by blast
  next
    case (Inr r)
    with Pair have "merge_conv_bn h conv bn = (h', Inr r)" by simp
    then have False
      using assms unfolding merge_conv_bn_def alloc_def Let_def
      by (auto split: option.splits layer.splits sum.splits prod.splits)
    then show ?thesis ..
  qed
qed

section \<open>The rescale factor and the pooling kernels of a hardware layer\<close>



lemma heap_get_update_other: "a \<noteq> r \<Longrightarrow> heap_get (h[r := x]) a = heap_get h a"
  by (simp add: heap_get_def)






lemma copy_or_convert_frame:
  assumes "copy_or_convert h1 d conv sk = (h2, d2, res)"
  shows "length h1 \<le> length h2 \<and> take (length h1) h2 = h1"
  using assms unfolding copy_or_convert_def alloc_def Let_def
  by (auto split: option.splits layer.splits sum.splits prod.splits)











































end
